theory Spec2Isabelle
  imports Complex_Main "HOL-Library.Sublist"
begin

section \<open>Python strings\<close>

text \<open>
  A Python \<^verbatim>\<open>str\<close> is a sequence of Unicode code points: \<^verbatim>\<open>len\<close> and slicing count code
  points, not bytes. The templates of \<^verbatim>\<open>generate_content\<close> contain two characters outside
  ASCII (the bullet U+2022 and the em dash U+2014), and the truncation \<^verbatim>\<open>text[: max_len * 2]\<close>
  counts each of them once. A string is therefore a list of code points; \<open>py\<close> embeds an ASCII
  literal.
\<close>

type_synonym pystr = "nat list"

definition py :: "string \<Rightarrow> pystr" where
  "py cs = map of_char cs"

definition bullet :: nat where
  "bullet = 8226"

definition em_dash :: nat where
  "em_dash = 8212"

text \<open>
  The characters for which \<^verbatim>\<open>str.isspace\<close> holds; \<^verbatim>\<open>str.strip()\<close> and \<^verbatim>\<open>str.split()\<close> without
  arguments use the same set.
\<close>

definition is_space :: "nat \<Rightarrow> bool" where
  "is_space c \<longleftrightarrow>
     (9 \<le> c \<and> c \<le> 13) \<or> (28 \<le> c \<and> c \<le> 32) \<or> c = 133 \<or> c = 160 \<or> c = 5760 \<or>
     (8192 \<le> c \<and> c \<le> 8202) \<or> c = 8232 \<or> c = 8233 \<or> c = 8239 \<or> c = 8287 \<or> c = 12288"

text \<open>\<^verbatim>\<open>s.strip()\<close>: leading and trailing whitespace removed.\<close>

definition strip :: "pystr \<Rightarrow> pystr" where
  "strip s = rev (dropWhile is_space (rev (dropWhile is_space s)))"

text \<open>
  \<^verbatim>\<open>s.split()\<close>: the maximal runs of non-whitespace characters, in order. \<open>split_acc\<close> scans
  the string with the word read so far.
\<close>

fun split_acc :: "pystr \<Rightarrow> pystr \<Rightarrow> pystr list" where
  "split_acc [] w = (if w = [] then [] else [w])"
| "split_acc (c # cs) w =
     (if is_space c then (if w = [] then split_acc cs [] else w # split_acc cs [])
      else split_acc cs (w @ [c]))"

definition split :: "pystr \<Rightarrow> pystr list" where
  "split s = split_acc s []"

text \<open>\<^verbatim>\<open>sep.join(xs)\<close>.\<close>

fun join :: "pystr \<Rightarrow> pystr list \<Rightarrow> pystr" where
  "join sep [] = []"
| "join sep [x] = x"
| "join sep (x # y # ys) = x @ sep @ join sep (y # ys)"

text \<open>\<^verbatim>\<open>needle in s\<close> for strings: \<open>needle\<close> occurs in \<open>s\<close> as a contiguous run.\<close>

fun contains :: "pystr \<Rightarrow> pystr \<Rightarrow> bool" where
  "contains [] needle = (needle = [])"
| "contains (c # cs) needle = (prefix needle (c # cs) \<or> contains cs needle)"

text \<open>\<^verbatim>\<open>s.endswith(t)\<close>.\<close>

definition endswith :: "pystr \<Rightarrow> pystr \<Rightarrow> bool" where
  "endswith s t = suffix t s"

section \<open>Python floats\<close>

text \<open>
  \<^verbatim>\<open>creativity\<close> is a Python float. Every finite double is a rational number and the
  comparisons of the code are exact on them, so a finite float is modelled by its exact
  value. A float literal of the source denotes the double nearest to it: \<^verbatim>\<open>0.6\<close> and \<^verbatim>\<open>0.35\<close>
  are not the rationals 3/5 and 7/20 but the two values below (\<^verbatim>\<open>float.as_integer_ratio\<close>);
  \<^verbatim>\<open>0.0\<close> and \<^verbatim>\<open>1.0\<close> are exact. Non-finite floats are not modelled.
\<close>

type_synonym pyfloat = rat

definition float_0_6 :: pyfloat where
  "float_0_6 = 5404319552844595 / 9007199254740992"

definition float_0_35 :: pyfloat where
  "float_0_35 = 3152519739159347 / 9007199254740992"

section \<open>The generation request\<close>

text \<open>
  \<^verbatim>\<open>GenerateRequest\<close> of main.py. The field \<^verbatim>\<open>length\<close> is named \<open>length_name\<close> here, since
  \<open>length\<close> is the length of a list.
\<close>

record generate_request =
  prompt :: pystr
  tone :: pystr
  sentiment :: pystr
  length_name :: pystr
  creativity :: pyfloat
  variants :: int

section \<open>The composer: the loop of \<^verbatim>\<open>generate_content\<close>\<close>

text \<open>
  \<^verbatim>\<open>{...}.get(payload.tone, "Confident and clear.")\<close>: the dictionary literal as an association
  list, looked up by exact match.
\<close>

definition tone_table :: "(pystr \<times> pystr) list" where
  "tone_table =
     [(py ''Professional'', py ''Polished and concise.''),
      (py ''Playful'', py ''Light and witty.''),
      (py ''Formal'', py ''Respectful and structured.''),
      (py ''Casual'', py ''Friendly and direct.'')]"

definition tone_voice :: "pystr \<Rightarrow> pystr" where
  "tone_voice t =
     (case map_of tone_table t of Some v \<Rightarrow> v | None \<Rightarrow> py ''Confident and clear.'')"

definition sentiment_table :: "(pystr \<times> pystr) list" where
  "sentiment_table =
     [(py ''Positive'', py ''Emphasize benefits and momentum.''),
      (py ''Neutral'', py ''Stay informative and balanced.''),
      (py ''Urgent'', py ''Use action-forward phrasing.'')]"

definition sentiment_hint :: "pystr \<Rightarrow> pystr" where
  "sentiment_hint s =
     (case map_of sentiment_table s of Some v \<Rightarrow> v | None \<Rightarrow> py ''Stay helpful.'')"

definition length_map :: "(pystr \<times> int \<times> int) list" where
  "length_map =
     [(py ''Short'', (18, 26)),
      (py ''Medium'', (40, 60)),
      (py ''Long'', (80, 120))]"

definition length_bounds :: "pystr \<Rightarrow> int \<times> int" where
  "length_bounds l = (case map_of length_map l of Some b \<Rightarrow> b | None \<Rightarrow> (40, 60))"

definition min_len :: "pystr \<Rightarrow> int" where
  "min_len l = fst (length_bounds l)"

definition max_len :: "pystr \<Rightarrow> int" where
  "max_len l = snd (length_bounds l)"

text \<open>\<^verbatim>\<open>base = payload.prompt.strip() or "Your product or idea"\<close>: the empty string is falsy.\<close>

definition placeholder :: pystr where
  "placeholder = py ''Your product or idea''"

definition base :: "pystr \<Rightarrow> pystr" where
  "base p = (if strip p = [] then placeholder else strip p)"

text \<open>The f-strings of the loop body.\<close>

definition guide :: "('a generate_request_scheme) \<Rightarrow> pystr" where
  "guide p =
     tone p @ [32, bullet, 32] @ sentiment p @ [32, bullet, 32] @ length_name p @ py ''. '' @
     tone_voice (tone p) @ py '' '' @ sentiment_hint (sentiment p)"

definition core :: "('a generate_request_scheme) \<Rightarrow> pystr" where
  "core p =
     base (prompt p) @ [32, em_dash] @ py '' crafted with ContentForge to help you move faster.''"

definition exclaim :: "('a generate_request_scheme) \<Rightarrow> pystr" where
  "exclaim p =
     (if sentiment p = py ''Urgent'' \<or> creativity p > float_0_6 then py ''!'' else py ''.'')"

definition cta_suffix :: "('a generate_request_scheme) \<Rightarrow> pystr" where
  "cta_suffix p = (if sentiment p = py ''Urgent'' then py '' Take the next step today'' else [])"

text \<open>\<^verbatim>\<open>text = f"{core} {guide}{exclaim}{suffix}"\<close>, the text before padding.\<close>

definition assembled :: "('a generate_request_scheme) \<Rightarrow> pystr" where
  "assembled p = core p @ py '' '' @ guide p @ exclaim p @ cta_suffix p"

definition fillers :: "pystr list" where
  "fillers =
     [py ''Learn more.'', py ''Discover why.'', py ''Built for teams.'', py ''Effortless.'',
      py ''Reliable.'']"

text \<open>
  The padding step. \<^verbatim>\<open>len(text.split())\<close> is an int, and the slice bound is
  \<^verbatim>\<open>max(0, min_len - len(text.split()))\<close>.
\<close>

definition word_count :: "pystr \<Rightarrow> int" where
  "word_count s = int (length (split s))"

definition pad :: "int \<Rightarrow> pystr \<Rightarrow> pystr" where
  "pad mn s =
     (if word_count s < mn
      then s @ py '' '' @ join (py '' '') (take (nat (max 0 (mn - word_count s))) fillers)
      else s)"

definition padded :: "('a generate_request_scheme) \<Rightarrow> pystr" where
  "padded p = pad (min_len (length_name p)) (assembled p)"

text \<open>
  One pass of the loop body for index \<open>i\<close>: the string appended to \<^verbatim>\<open>outputs\<close>, that is
  \<^verbatim>\<open>text[: max_len * 2]\<close>. The body does not read \<open>i\<close>.
\<close>

definition variant :: "('a generate_request_scheme) \<Rightarrow> nat \<Rightarrow> pystr" where
  "variant p i = take (nat (max_len (length_name p) * 2)) (padded p)"

text \<open>
  \<^verbatim>\<open>for i in range(payload.variants)\<close>, appending to \<^verbatim>\<open>outputs\<close>; \<^verbatim>\<open>range(n)\<close> is empty for
  \<open>n \<le> 0\<close>.
\<close>

fun variants_loop :: "('a generate_request_scheme) \<Rightarrow> nat list \<Rightarrow> pystr list \<Rightarrow> pystr list" where
  "variants_loop p [] outs = outs"
| "variants_loop p (i # idxs) outs = variants_loop p idxs (outs @ [variant p i])"

definition range_py :: "int \<Rightarrow> nat list" where
  "range_py n = [0 ..< nat n]"

definition compose :: "('a generate_request_scheme) \<Rightarrow> pystr list" where
  "compose p = variants_loop p (range_py (variants p)) []"

section \<open>Request validation\<close>

text \<open>
  The raw body of \<^verbatim>\<open>POST /api/generate\<close>, after JSON decoding: each field is present with a
  value of its declared type, or absent. \<^verbatim>\<open>prompt\<close>, \<^verbatim>\<open>tone\<close> and \<^verbatim>\<open>sentiment\<close> are declared
  \<^verbatim>\<open>Field(...)\<close> (required, no length bound); \<^verbatim>\<open>length\<close>, \<^verbatim>\<open>creativity\<close> and \<^verbatim>\<open>variants\<close> have
  defaults, and the last two carry the bounds \<^verbatim>\<open>ge\<close> and \<^verbatim>\<open>le\<close>. A default is not validated.
  The validation errors are collected field by field, in declaration order.
\<close>

record raw_request =
  raw_prompt :: "pystr option"
  raw_tone :: "pystr option"
  raw_sentiment :: "pystr option"
  raw_length :: "pystr option"
  raw_creativity :: "pyfloat option"
  raw_variants :: "int option"

datatype field_error =
    Missing string
  | Greater_than_equal string
  | Less_than_equal string

definition required :: "string \<Rightarrow> 'a option \<Rightarrow> field_error list" where
  "required name v = (case v of None \<Rightarrow> [Missing name] | Some _ \<Rightarrow> [])"

text \<open>\<^verbatim>\<open>Field(0.35, ge=0.0, le=1.0)\<close> and \<^verbatim>\<open>Field(1, ge=1, le=5)\<close>.\<close>

definition check_creativity :: "pyfloat option \<Rightarrow> field_error list" where
  "check_creativity v =
     (case v of
        None \<Rightarrow> []
      | Some c \<Rightarrow>
          if \<not> 0 \<le> c then [Greater_than_equal ''creativity'']
          else if \<not> c \<le> 1 then [Less_than_equal ''creativity'']
          else [])"

definition check_variants :: "int option \<Rightarrow> field_error list" where
  "check_variants v =
     (case v of
        None \<Rightarrow> []
      | Some n \<Rightarrow>
          if \<not> 1 \<le> n then [Greater_than_equal ''variants'']
          else if \<not> n \<le> 5 then [Less_than_equal ''variants'']
          else [])"

definition validation_errors :: "raw_request \<Rightarrow> field_error list" where
  "validation_errors raw =
     required ''prompt'' (raw_prompt raw) @ required ''tone'' (raw_tone raw) @
     required ''sentiment'' (raw_sentiment raw) @
     check_creativity (raw_creativity raw) @ check_variants (raw_variants raw)"

definition with_default :: "'a \<Rightarrow> 'a option \<Rightarrow> 'a" where
  "with_default d v = (case v of None \<Rightarrow> d | Some x \<Rightarrow> x)"

text \<open>Constructing a \<^verbatim>\<open>GenerateRequest\<close> from the raw body: the errors, or the request.\<close>

definition GenerateRequest :: "raw_request \<Rightarrow> field_error list + generate_request" where
  "GenerateRequest raw =
     (case (raw_prompt raw, raw_tone raw, raw_sentiment raw) of
        (Some p, Some t, Some s) \<Rightarrow>
          if validation_errors raw = []
          then Inr \<lparr>prompt = p, tone = t, sentiment = s,
                    length_name = with_default (py ''Medium'') (raw_length raw),
                    creativity = with_default float_0_35 (raw_creativity raw),
                    variants = with_default 1 (raw_variants raw)\<rparr>
          else Inl (validation_errors raw)
      | _ \<Rightarrow> Inl (validation_errors raw))"

text \<open>The requests that validation can produce: both bounded fields are in range.\<close>

definition valid_request :: "('a generate_request_scheme) \<Rightarrow> bool" where
  "valid_request p \<longleftrightarrow>
     0 \<le> creativity p \<and> creativity p \<le> 1 \<and> 1 \<le> variants p \<and> variants p \<le> 5"

section \<open>Persistence and the generation endpoint\<close>

text \<open>
  An exception that \<^verbatim>\<open>except Exception\<close> catches, by class name. The functions
  \<^verbatim>\<open>create_document\<close> and \<^verbatim>\<open>get_recent_documents\<close> belong to the module \<^verbatim>\<open>database\<close>, which
  talks to the document store; the handlers take them as parameters, and a call either
  raises or returns.
\<close>

datatype exn = Exception string

text \<open>
  \<^verbatim>\<open>Generation\<close> of schemas.py: its constructor checks the same bounds on \<^verbatim>\<open>creativity\<close> and
  \<^verbatim>\<open>variants\<close>, and raises a validation error otherwise.
\<close>

record generation =
  gen_prompt :: pystr
  gen_tone :: pystr
  gen_sentiment :: pystr
  gen_length :: pystr
  gen_creativity :: pyfloat
  gen_variants :: int
  gen_result :: "pystr option"

definition Generation ::
  "pystr \<Rightarrow> pystr \<Rightarrow> pystr \<Rightarrow> pystr \<Rightarrow> pyfloat \<Rightarrow> int \<Rightarrow> pystr \<Rightarrow> exn + generation" where
  "Generation p t s l c v r =
     (if check_creativity (Some c) @ check_variants (Some v) = []
      then Inr \<lparr>gen_prompt = p, gen_tone = t, gen_sentiment = s, gen_length = l,
                gen_creativity = c, gen_variants = v, gen_result = Some r\<rparr>
      else Inl (Exception ''ValidationError''))"

type_synonym create_document = "pystr \<Rightarrow> generation \<Rightarrow> exn + pystr"

text \<open>The body of the \<^verbatim>\<open>try\<close> block: build the document, insert it, yield the identifier.\<close>

definition persist ::
  "create_document \<Rightarrow> ('a generate_request_scheme) \<Rightarrow> pystr list \<Rightarrow> exn + pystr" where
  "persist create_doc payload outs =
     (case Generation (prompt payload) (tone payload) (sentiment payload) (length_name payload)
             (creativity payload) (variants payload) (join [10, 10] outs) of
        Inl e \<Rightarrow> Inl e
      | Inr doc \<Rightarrow> create_doc (py ''generation'') doc)"

text \<open>\<^verbatim>\<open>GenerateResponse\<close>; the field \<^verbatim>\<open>id\<close> is named \<open>id_field\<close>.\<close>

record generate_response =
  id_field :: pystr
  outputs :: "pystr list"

definition generate_content ::
  "create_document \<Rightarrow> ('a generate_request_scheme) \<Rightarrow> generate_response" where
  "generate_content create_doc payload =
     (let outs = compose payload;
          inserted_id = (case persist create_doc payload outs of
                           Inl e \<Rightarrow> py ''no-db''
                         | Inr i \<Rightarrow> i)
      in \<lparr>id_field = inserted_id, outputs = outs\<rparr>)"

text \<open>
  The route: the body is validated first, and the handler runs on a validated request only.
\<close>

datatype 'a http = HTTP_200 'a | HTTP_422 "field_error list"

definition post_api_generate :: "create_document \<Rightarrow> raw_request \<Rightarrow> generate_response http" where
  "post_api_generate create_doc raw =
     (case GenerateRequest raw of
        Inl errs \<Rightarrow> HTTP_422 errs
      | Inr payload \<Rightarrow> HTTP_200 (generate_content create_doc payload))"

section \<open>The recent-items endpoint\<close>

text \<open>
  \<^verbatim>\<open>RecentItem\<close>, and what the handler reads of a stored document \<open>d\<close>: \<^verbatim>\<open>str(d.get('_id'))\<close>,
  \<^verbatim>\<open>d.get('prompt', 'Untitled')\<close> and \<^verbatim>\<open>d.get('created_at')\<close>, which is falsy (\<open>None\<close> here), a
  datetime (given by its \<^verbatim>\<open>isoformat()\<close>) or another truthy value, on which \<^verbatim>\<open>.isoformat()\<close>
  raises.
\<close>

record recent_item =
  item_id :: pystr
  item_prompt :: pystr
  created_at :: "pystr option"

datatype created = Datetime pystr | Not_a_datetime

record document =
  doc_id_str :: pystr
  doc_prompt :: "pystr option"
  doc_created_at :: "created option"

definition to_item :: "document \<Rightarrow> exn + recent_item" where
  "to_item d =
     (case doc_created_at d of
        None \<Rightarrow>
          Inr \<lparr>item_id = doc_id_str d, item_prompt = with_default (py ''Untitled'') (doc_prompt d),
               created_at = None\<rparr>
      | Some (Datetime stamp) \<Rightarrow>
          Inr \<lparr>item_id = doc_id_str d, item_prompt = with_default (py ''Untitled'') (doc_prompt d),
               created_at = Some stamp\<rparr>
      | Some Not_a_datetime \<Rightarrow> Inl (Exception ''AttributeError''))"

fun items_loop :: "document list \<Rightarrow> recent_item list \<Rightarrow> exn + recent_item list" where
  "items_loop [] items = Inr items"
| "items_loop (d # ds) items =
     (case to_item d of Inl e \<Rightarrow> Inl e | Inr it \<Rightarrow> items_loop ds (items @ [it]))"

text \<open>\<^verbatim>\<open>f"mock-{i}"\<close> formats the int \<open>i\<close> in decimal.\<close>

fun str_nat :: "nat \<Rightarrow> pystr" where
  "str_nat n = (if n < 10 then [48 + n] else str_nat (n div 10) @ [48 + n mod 10])"

declare str_nat.simps [simp del]

text \<open>\<^verbatim>\<open>enumerate(xs, start=1)\<close>.\<close>

definition enumerate1 :: "'a list \<Rightarrow> (nat \<times> 'a) list" where
  "enumerate1 xs = zip [1 ..< Suc (length xs)] xs"

definition mock_items :: "recent_item list" where
  "mock_items =
     map (\<lambda>(i, p). \<lparr>item_id = py ''mock-'' @ str_nat i, item_prompt = p, created_at = None\<rparr>)
       (enumerate1 [py ''Product Launch Tweet'', py ''Feature Update Email'',
                    py ''SEO Blog Outline''])"

type_synonym get_recent_documents = "pystr \<Rightarrow> int \<Rightarrow> exn + document list"

definition recent_generations :: "get_recent_documents \<Rightarrow> int \<Rightarrow> recent_item list" where
  "recent_generations get_recent limit =
     (case get_recent (py ''generation'') limit of
        Inl e \<Rightarrow> mock_items
      | Inr docs \<Rightarrow> (case items_loop docs [] of Inl e \<Rightarrow> mock_items | Inr items \<Rightarrow> items))"

definition get_api_recent :: "get_recent_documents \<Rightarrow> int \<Rightarrow> recent_item list http" where
  "get_api_recent get_recent limit = HTTP_200 (recent_generations get_recent limit)"

section \<open>Vocabulary of the claims\<close>

text \<open>
  A raw request is out of range in a bounded field when the field is present with a value
  outside the declared bounds.
\<close>

definition creativity_out_of_range :: "raw_request \<Rightarrow> bool" where
  "creativity_out_of_range raw =
     (case raw_creativity raw of None \<Rightarrow> False | Some c \<Rightarrow> c < 0 \<or> 1 < c)"

definition variants_out_of_range :: "raw_request \<Rightarrow> bool" where
  "variants_out_of_range raw =
     (case raw_variants raw of None \<Rightarrow> False | Some v \<Rightarrow> v < 1 \<or> 5 < v)"

text \<open>A request used as a concrete input below.\<close>

definition launch_request :: generate_request where
  "launch_request =
     \<lparr>prompt = py ''Launch'', tone = py ''Formal'', sentiment = py ''Neutral'',
      length_name = py ''Medium'', creativity = float_0_35, variants = 2\<rparr>"

definition urgent_request :: generate_request where
  "urgent_request =
     \<lparr>prompt = py ''Launch'', tone = py ''Professional'', sentiment = py ''Urgent'',
      length_name = py ''Short'', creativity = float_0_35, variants = 1\<rparr>"

definition sarcastic_short_request :: generate_request where
  "sarcastic_short_request =
     \<lparr>prompt = py ''Launch'', tone = py ''Sarcastic'', sentiment = py ''Bored'',
      length_name = py ''Short'', creativity = float_0_35, variants = 1\<rparr>"

definition sarcastic_long_request :: generate_request where
  "sarcastic_long_request =
     \<lparr>prompt = py ''Launch'', tone = py ''Sarcastic'', sentiment = py ''Bored'',
      length_name = py ''Long'', creativity = 1, variants = 1\<rparr>"

section \<open>Auxiliary facts\<close>

lemma variants_loop_map: "variants_loop p idxs outs = outs @ map (variant p) idxs"
  by (induction idxs arbitrary: outs) auto

lemma compose_map: "compose p = map (variant p) (range_py (variants p))"
  by (simp add: compose_def variants_loop_map)

lemma length_compose: "length (compose p) = nat (variants p)"
  by (simp add: compose_map range_py_def)

lemma set_compose: "out \<in> set (compose p) \<Longrightarrow> out = take (nat (max_len (length_name p) * 2)) (padded p)"
  by (auto simp: compose_map variant_def)

lemma compose_replicate: "compose p = replicate (nat (variants p)) (variant p 0)"
proof -
  have "variant p = (\<lambda>i. variant p 0)"
    by (simp add: fun_eq_iff variant_def)
  then have "map (variant p) (range_py (variants p)) = map (\<lambda>i. variant p 0) (range_py (variants p))"
    by simp
  then show ?thesis
    by (simp add: compose_map map_replicate_const range_py_def)
qed

lemma split_acc_nonempty_acc:
  "w \<noteq> [] \<Longrightarrow> w' \<noteq> [] \<Longrightarrow> length (split_acc s w) = length (split_acc s w')"
proof (induction s arbitrary: w w')
  case Nil
  then show ?case by simp
next
  case (Cons c cs)
  show ?case
  proof (cases "is_space c")
    case True
    with Cons.prems show ?thesis by simp
  next
    case False
    have "length (split_acc cs (w @ [c])) = length (split_acc cs (w' @ [c]))"
      by (rule Cons.IH) simp_all
    with False show ?thesis by simp
  qed
qed

lemma split_acc_mono: "length (split_acc s []) \<le> length (split_acc s w)"
proof (induction s arbitrary: w)
  case Nil
  then show ?case by simp
next
  case (Cons c cs)
  show ?case
  proof (cases "is_space c")
    case True
    then show ?thesis by simp
  next
    case False
    have "length (split_acc cs [c]) = length (split_acc cs (w @ [c]))"
      by (rule split_acc_nonempty_acc) simp_all
    with False show ?thesis by simp
  qed
qed

lemma split_acc_append_ge: "length (split_acc ys []) \<le> length (split_acc (xs @ ys) w)"
proof (induction xs arbitrary: w)
  case Nil
  then show ?case by (simp add: split_acc_mono)
next
  case (Cons c cs)
  show ?case
  proof (cases "is_space c")
    case True
    have "length (split_acc ys []) \<le> length (split_acc (cs @ ys) [])"
      by (rule Cons.IH)
    with True show ?thesis by simp
  next
    case False
    have "length (split_acc ys []) \<le> length (split_acc (cs @ ys) (w @ [c]))"
      by (rule Cons.IH)
    with False show ?thesis by simp
  qed
qed

lemma word_count_append_ge: "word_count ys \<le> word_count (xs @ ys)"
  by (simp add: word_count_def split_def split_acc_append_ge)

lemma strip_all_space:
  assumes "\<forall>c \<in> set s. is_space c"
  shows "strip s = []"
proof -
  from assms have h: "dropWhile is_space s = []" by simp
  show ?thesis unfolding strip_def h by simp
qed

lemma core_nonempty: "core p \<noteq> []"
  by (simp add: core_def)

lemma assembled_nonempty: "assembled p \<noteq> []"
  by (simp add: assembled_def core_nonempty)

lemma prefix_pad: "prefix s (pad mn s)"
  by (simp add: pad_def)

lemma padded_nonempty: "padded p \<noteq> []"
  using prefix_pad [of "assembled p" "min_len (length_name p)"] assembled_nonempty [of p]
  by (auto simp: padded_def)

lemma max_len_pos: "26 \<le> max_len l"
  by (simp add: max_len_def length_bounds_def length_map_def)

lemma GenerateRequest_valid: "GenerateRequest raw = Inr p \<Longrightarrow> valid_request p"
  by (auto simp: GenerateRequest_def validation_errors_def valid_request_def with_default_def
      check_creativity_def check_variants_def float_0_35_def
      split: option.splits if_splits)

lemma valid_request_reachable:
  fixes p :: generate_request
  assumes "valid_request p"
  shows "GenerateRequest
           \<lparr>raw_prompt = Some (prompt p), raw_tone = Some (tone p),
            raw_sentiment = Some (sentiment p), raw_length = Some (length_name p),
            raw_creativity = Some (creativity p), raw_variants = Some (variants p)\<rparr> = Inr p"
  using assms
  by (simp add: GenerateRequest_def validation_errors_def required_def check_creativity_def
      check_variants_def with_default_def valid_request_def)

lemma validation_errors_range:
  "creativity_out_of_range raw \<or> variants_out_of_range raw \<Longrightarrow> validation_errors raw \<noteq> []"
  by (auto simp: validation_errors_def creativity_out_of_range_def variants_out_of_range_def
      check_creativity_def check_variants_def split: option.splits)

lemma validation_errors_missing:
  "raw_prompt raw = None \<or> raw_tone raw = None \<or> raw_sentiment raw = None \<Longrightarrow>
   validation_errors raw \<noteq> []"
  by (auto simp: validation_errors_def required_def)

lemma GenerateRequest_errors:
  "validation_errors raw \<noteq> [] \<Longrightarrow> GenerateRequest raw = Inl (validation_errors raw)"
  by (simp add: GenerateRequest_def split: option.splits)

lemma GenerateRequest_accepts:
  assumes "raw_prompt raw = Some p" "raw_tone raw = Some t" "raw_sentiment raw = Some s"
    and "\<not> creativity_out_of_range raw" "\<not> variants_out_of_range raw"
  shows "GenerateRequest raw =
     Inr \<lparr>prompt = p, tone = t, sentiment = s,
          length_name = with_default (py ''Medium'') (raw_length raw),
          creativity = with_default float_0_35 (raw_creativity raw),
          variants = with_default 1 (raw_variants raw)\<rparr>"
  using assms
  by (auto simp: GenerateRequest_def validation_errors_def required_def
      creativity_out_of_range_def variants_out_of_range_def
      check_creativity_def check_variants_def split: option.splits)

lemma variant_cong:
  fixes p :: "'a generate_request_scheme" and q :: "'b generate_request_scheme"
  assumes "prompt p = prompt q" "tone p = tone q" "sentiment p = sentiment q"
    and "length_name p = length_name q" "creativity p = creativity q"
  shows "variant p i = variant q j"
  using assms
  by (simp add: variant_def padded_def assembled_def core_def guide_def exclaim_def
      cta_suffix_def)

lemma take_fillers: "take (nat d) fillers = take (nat (min d 5)) fillers"
proof (cases "d \<le> 5")
  case True
  then show ?thesis by (simp add: min_def)
next
  case False
  then have "length fillers \<le> nat d" and "min d 5 = 5"
    by (simp_all add: fillers_def)
  then show ?thesis by (simp add: fillers_def)
qed

lemmas eval_defs =
  variant_def padded_def pad_def word_count_def split_def assembled_def core_def guide_def
  exclaim_def cta_suffix_def base_def strip_def placeholder_def tone_voice_def tone_table_def
  sentiment_hint_def sentiment_table_def min_len_def max_len_def length_bounds_def
  length_map_def fillers_def is_space_def py_def bullet_def em_dash_def float_0_6_def
  float_0_35_def

lemma compose_single: "variants p = 1 \<Longrightarrow> compose p = [variant p 0]"
  by (simp add: compose_replicate)

lemma prefix_variant: "out \<in> set (compose p) \<Longrightarrow> prefix out (padded p)"
  by (auto dest!: set_compose simp: take_is_prefix)

lemma tone_voice_default:
  "t \<notin> {py ''Professional'', py ''Playful'', py ''Formal'', py ''Casual''} \<Longrightarrow>
   tone_voice t = py ''Confident and clear.''"
  by (simp add: tone_voice_def tone_table_def)

lemma sentiment_hint_default:
  "s \<notin> {py ''Positive'', py ''Neutral'', py ''Urgent''} \<Longrightarrow>
   sentiment_hint s = py ''Stay helpful.''"
  by (simp add: sentiment_hint_def sentiment_table_def)

lemma urgent_tail_words:
  "word_count ([32, em_dash] @ py '' crafted with ContentForge to help you move faster.'' @
     py '' '' @ py ''Professional'' @ [32, bullet, 32] @ py ''Urgent'' @ [32, bullet, 32] @
     py ''Short'' @ py ''. '' @ py ''Polished and concise.'' @ py '' '' @
     py ''Use action-forward phrasing.'' @ py ''!'' @ py '' Take the next step today'') = 25"
  by (simp add: word_count_def split_def py_def is_space_def em_dash_def bullet_def)

lemma base_nonempty: "base s \<noteq> []"
  by (simp add: base_def placeholder_def py_def)

lemma length_core: "54 \<le> length (core p)"
proof -
  have "1 \<le> length (base (prompt p))"
    using base_nonempty [of "prompt p"] by (cases "base (prompt p)") simp_all
  then show ?thesis by (simp add: core_def py_def)
qed

lemma padded_core: "\<exists>r. padded p = core p @ r"
proof -
  from prefix_pad [of "assembled p" "min_len (length_name p)"]
  obtain z where "padded p = assembled p @ z"
    by (auto simp: padded_def prefix_def)
  then show ?thesis by (simp add: assembled_def)
qed

lemma short_variant_cut:
  assumes "length_name p = py ''Short''"
  shows "variant p i = take 52 (core p)"
proof -
  have m: "nat (max_len (length_name p) * 2) = 52"
    using assms by (simp add: max_len_def length_bounds_def length_map_def)
  obtain r where r: "padded p = core p @ r"
    using padded_core by blast
  have "take 52 (core p @ r) = take 52 (core p)"
    using length_core [of p] by simp
  then show ?thesis by (simp add: variant_def m r)
qed

section \<open>The claims\<close>

subsection \<open>Number of outputs\<close>

text \<open>
  Claim C1. For every valid request (both bounded fields in range, so \<open>variants\<close> is an
  integer from 1 to 5), the response of the generation handler carries exactly \<open>variants\<close>
  outputs, whatever the store does.
\<close>

theorem generate_outputs_length:
  assumes "valid_request p"
  shows "int (length (outputs (generate_content create_doc p))) = variants p"
  using assms by (simp add: generate_content_def Let_def length_compose valid_request_def)

theorem generate_outputs_length_witness:
  "valid_request \<lparr>prompt = py ''Launch'', tone = py ''Formal'', sentiment = py ''Neutral'',
      length_name = py ''Medium'', creativity = float_0_35, variants = 3\<rparr> \<and>
   int (length (outputs (generate_content (\<lambda>c d. Inr (py ''a1''))
      \<lparr>prompt = py ''Launch'', tone = py ''Formal'', sentiment = py ''Neutral'',
       length_name = py ''Medium'', creativity = float_0_35, variants = 3\<rparr>))) = 3"
proof -
  have v: "valid_request \<lparr>prompt = py ''Launch'', tone = py ''Formal'', sentiment = py ''Neutral'',
      length_name = py ''Medium'', creativity = float_0_35, variants = 3\<rparr>"
    by (simp add: valid_request_def float_0_35_def)
  show ?thesis using v generate_outputs_length [OF v, of "\<lambda>c d. Inr (py ''a1'')"] by simp
qed

subsection \<open>Persistence failures\<close>

text \<open>
  Claim C3. When the request validates and the \<^verbatim>\<open>try\<close> block that persists the result raises
  (the document constructor or \<^verbatim>\<open>create_document\<close>, with any exception \<open>e\<close>), the endpoint
  still answers 200: the identifier is the sentinel \<^verbatim>\<open>"no-db"\<close> and the outputs are exactly the
  composed ones.
\<close>

theorem persistence_failure_swallowed:
  assumes "GenerateRequest raw = Inr p"
    and "persist create_doc p (compose p) = Inl e"
  shows "post_api_generate create_doc raw =
           HTTP_200 \<lparr>id_field = py ''no-db'', outputs = compose p\<rparr>"
  using assms by (simp add: post_api_generate_def generate_content_def Let_def)

theorem persistence_failure_swallowed_witness:
  "GenerateRequest
     \<lparr>raw_prompt = Some (py ''Launch''), raw_tone = Some (py ''Formal''),
      raw_sentiment = Some (py ''Neutral''), raw_length = None, raw_creativity = None,
      raw_variants = Some 2\<rparr> =
     Inr \<lparr>prompt = py ''Launch'', tone = py ''Formal'', sentiment = py ''Neutral'',
          length_name = py ''Medium'', creativity = float_0_35, variants = 2\<rparr> \<and>
   persist (\<lambda>c d. Inl (Exception ''ServerSelectionTimeoutError''))
     \<lparr>prompt = py ''Launch'', tone = py ''Formal'', sentiment = py ''Neutral'',
      length_name = py ''Medium'', creativity = float_0_35, variants = 2\<rparr>
     (compose \<lparr>prompt = py ''Launch'', tone = py ''Formal'', sentiment = py ''Neutral'',
        length_name = py ''Medium'', creativity = float_0_35, variants = 2\<rparr>) =
     Inl (Exception ''ServerSelectionTimeoutError'') \<and>
   post_api_generate (\<lambda>c d. Inl (Exception ''ServerSelectionTimeoutError''))
     \<lparr>raw_prompt = Some (py ''Launch''), raw_tone = Some (py ''Formal''),
      raw_sentiment = Some (py ''Neutral''), raw_length = None, raw_creativity = None,
      raw_variants = Some 2\<rparr> =
     HTTP_200 \<lparr>id_field = py ''no-db'',
       outputs = compose \<lparr>prompt = py ''Launch'', tone = py ''Formal'',
         sentiment = py ''Neutral'', length_name = py ''Medium'', creativity = float_0_35,
         variants = 2\<rparr>\<rparr>"
proof -
  have v: "GenerateRequest
     \<lparr>raw_prompt = Some (py ''Launch''), raw_tone = Some (py ''Formal''),
      raw_sentiment = Some (py ''Neutral''), raw_length = None, raw_creativity = None,
      raw_variants = Some 2\<rparr> =
     Inr \<lparr>prompt = py ''Launch'', tone = py ''Formal'', sentiment = py ''Neutral'',
          length_name = py ''Medium'', creativity = float_0_35, variants = 2\<rparr>"
    by (simp add: GenerateRequest_def validation_errors_def required_def check_creativity_def
        check_variants_def with_default_def)
  have f: "persist (\<lambda>c d. Inl (Exception ''ServerSelectionTimeoutError''))
     \<lparr>prompt = py ''Launch'', tone = py ''Formal'', sentiment = py ''Neutral'',
      length_name = py ''Medium'', creativity = float_0_35, variants = 2\<rparr>
     (compose \<lparr>prompt = py ''Launch'', tone = py ''Formal'', sentiment = py ''Neutral'',
        length_name = py ''Medium'', creativity = float_0_35, variants = 2\<rparr>) =
     Inl (Exception ''ServerSelectionTimeoutError'')"
    by (simp add: persist_def Generation_def check_creativity_def check_variants_def
        float_0_35_def)
  from v f persistence_failure_swallowed [OF v f] show ?thesis by simp
qed

subsection \<open>Fallback of the recent-items endpoint\<close>

text \<open>
  Claim C4. For every limit, when \<^verbatim>\<open>get_recent_documents\<close> raises, the endpoint answers 200
  with exactly the three fallback items: identifiers \<^verbatim>\<open>mock-1\<close>, \<^verbatim>\<open>mock-2\<close>, \<^verbatim>\<open>mock-3\<close>, the three
  fixed prompts and no creation time. The limit plays no part.
\<close>

theorem recent_fallback:
  assumes "get_recent (py ''generation'') limit = Inl e"
  shows "get_api_recent get_recent limit =
           HTTP_200
             [\<lparr>item_id = py ''mock-1'', item_prompt = py ''Product Launch Tweet'', created_at = None\<rparr>,
              \<lparr>item_id = py ''mock-2'', item_prompt = py ''Feature Update Email'', created_at = None\<rparr>,
              \<lparr>item_id = py ''mock-3'', item_prompt = py ''SEO Blog Outline'', created_at = None\<rparr>]"
  using assms
  by (simp add: get_api_recent_def recent_generations_def mock_items_def enumerate1_def
      upt_rec str_nat.simps py_def)

theorem recent_fallback_witness:
  "get_api_recent (\<lambda>c n. Inl (Exception ''ServerSelectionTimeoutError'')) 1 =
           HTTP_200
             [\<lparr>item_id = py ''mock-1'', item_prompt = py ''Product Launch Tweet'', created_at = None\<rparr>,
              \<lparr>item_id = py ''mock-2'', item_prompt = py ''Feature Update Email'', created_at = None\<rparr>,
              \<lparr>item_id = py ''mock-3'', item_prompt = py ''SEO Blog Outline'', created_at = None\<rparr>]"
  using recent_fallback [of "\<lambda>c n. Inl (Exception ''ServerSelectionTimeoutError'')" 1
      "Exception ''ServerSelectionTimeoutError''"]
  by simp

subsection \<open>Validation of the bounded fields\<close>

text \<open>
  Claim C2. A raw request whose \<open>creativity\<close> is outside [0, 1] or whose \<open>variants\<close> is
  outside [1, 5] fails validation: the error list is not empty and the endpoint answers 422
  with it, so the handler and its composer are not run. Conversely, when both fields are
  in range (or absent), the two bound checks report no error.
\<close>

theorem range_validation:
  "(creativity_out_of_range raw \<or> variants_out_of_range raw \<longrightarrow>
      validation_errors raw \<noteq> [] \<and>
      post_api_generate create_doc raw = HTTP_422 (validation_errors raw)) \<and>
   (\<not> creativity_out_of_range raw \<and> \<not> variants_out_of_range raw \<longrightarrow>
      check_creativity (raw_creativity raw) = [] \<and> check_variants (raw_variants raw) = [])"
proof (intro conjI impI)
  assume a: "creativity_out_of_range raw \<or> variants_out_of_range raw"
  then show e: "validation_errors raw \<noteq> []" by (rule validation_errors_range)
  then show "post_api_generate create_doc raw = HTTP_422 (validation_errors raw)"
    by (simp add: post_api_generate_def GenerateRequest_errors)
next
  assume "\<not> creativity_out_of_range raw \<and> \<not> variants_out_of_range raw"
  then show "check_creativity (raw_creativity raw) = []"
    by (auto simp: creativity_out_of_range_def check_creativity_def split: option.splits)
next
  assume "\<not> creativity_out_of_range raw \<and> \<not> variants_out_of_range raw"
  then show "check_variants (raw_variants raw) = []"
    by (auto simp: variants_out_of_range_def check_variants_def split: option.splits)
qed

theorem range_validation_witness:
  "creativity_out_of_range
     \<lparr>raw_prompt = Some (py ''Launch''), raw_tone = Some (py ''Formal''),
      raw_sentiment = Some (py ''Neutral''), raw_length = None, raw_creativity = Some (3 / 2),
      raw_variants = Some 2\<rparr> \<and>
   post_api_generate (\<lambda>c d. Inr (py ''a1''))
     \<lparr>raw_prompt = Some (py ''Launch''), raw_tone = Some (py ''Formal''),
      raw_sentiment = Some (py ''Neutral''), raw_length = None, raw_creativity = Some (3 / 2),
      raw_variants = Some 2\<rparr> = HTTP_422 [Less_than_equal ''creativity''] \<and>
   \<not> creativity_out_of_range
     \<lparr>raw_prompt = Some (py ''Launch''), raw_tone = Some (py ''Formal''),
      raw_sentiment = Some (py ''Neutral''), raw_length = None, raw_creativity = Some 1,
      raw_variants = Some 5\<rparr> \<and>
   \<not> variants_out_of_range
     \<lparr>raw_prompt = Some (py ''Launch''), raw_tone = Some (py ''Formal''),
      raw_sentiment = Some (py ''Neutral''), raw_length = None, raw_creativity = Some 1,
      raw_variants = Some 5\<rparr> \<and>
   check_creativity (Some 1) = [] \<and> check_variants (Some 5) = []"
  using range_validation [of
      "\<lparr>raw_prompt = Some (py ''Launch''), raw_tone = Some (py ''Formal''),
      raw_sentiment = Some (py ''Neutral''), raw_length = None, raw_creativity = Some (3 / 2),
      raw_variants = Some 2\<rparr>" "\<lambda>c d. Inr (py ''a1'')"]
    range_validation [of
      "\<lparr>raw_prompt = Some (py ''Launch''), raw_tone = Some (py ''Formal''),
      raw_sentiment = Some (py ''Neutral''), raw_length = None, raw_creativity = Some 1,
      raw_variants = Some 5\<rparr>" "\<lambda>c d. Inr (py ''a1'')"]
  by (simp add: creativity_out_of_range_def variants_out_of_range_def validation_errors_def
      required_def check_creativity_def check_variants_def)

subsection \<open>Required strings\<close>

text \<open>
  Claim C10, as stated, asks that an empty \<open>prompt\<close>, \<open>tone\<close> or \<open>sentiment\<close> fail validation.
  The fields are declared required with no length bound, and the request with three empty
  strings validates.
\<close>

theorem empty_strings_counterexample:
  "GenerateRequest
     \<lparr>raw_prompt = Some (py ''''), raw_tone = Some (py ''''), raw_sentiment = Some (py ''''),
      raw_length = None, raw_creativity = None, raw_variants = None\<rparr> =
   Inr \<lparr>prompt = py '''', tone = py '''', sentiment = py '''', length_name = py ''Medium'',
        creativity = float_0_35, variants = 1\<rparr>"
  by (simp add: GenerateRequest_def validation_errors_def required_def check_creativity_def
      check_variants_def with_default_def)

text \<open>
  Claim C10, amended. \<open>prompt\<close>, \<open>tone\<close> and \<open>sentiment\<close> are required: a raw request that
  lacks one of them fails validation with a 422 before the handler runs. Any string is
  accepted for them, the empty one included: with the three present and the bounded fields
  in range, the endpoint answers 200.
\<close>

theorem required_strings:
  "(raw_prompt raw = None \<or> raw_tone raw = None \<or> raw_sentiment raw = None \<longrightarrow>
      validation_errors raw \<noteq> [] \<and>
      post_api_generate create_doc raw = HTTP_422 (validation_errors raw)) \<and>
   (raw_prompt raw = Some p \<and> raw_tone raw = Some t \<and> raw_sentiment raw = Some s \<and>
    \<not> creativity_out_of_range raw \<and> \<not> variants_out_of_range raw \<longrightarrow>
      (\<exists>resp. post_api_generate create_doc raw = HTTP_200 resp))"
proof (intro conjI impI)
  assume "raw_prompt raw = None \<or> raw_tone raw = None \<or> raw_sentiment raw = None"
  then show e: "validation_errors raw \<noteq> []" by (rule validation_errors_missing)
  then show "post_api_generate create_doc raw = HTTP_422 (validation_errors raw)"
    by (simp add: post_api_generate_def GenerateRequest_errors)
next
  assume a: "raw_prompt raw = Some p \<and> raw_tone raw = Some t \<and> raw_sentiment raw = Some s \<and>
    \<not> creativity_out_of_range raw \<and> \<not> variants_out_of_range raw"
  then have "GenerateRequest raw =
     Inr \<lparr>prompt = p, tone = t, sentiment = s,
          length_name = with_default (py ''Medium'') (raw_length raw),
          creativity = with_default float_0_35 (raw_creativity raw),
          variants = with_default 1 (raw_variants raw)\<rparr>"
    by (intro GenerateRequest_accepts) simp_all
  then show "\<exists>resp. post_api_generate create_doc raw = HTTP_200 resp"
    by (simp add: post_api_generate_def)
qed

theorem required_strings_witness:
  "post_api_generate (\<lambda>c d. Inr (py ''a1''))
     \<lparr>raw_prompt = Some (py ''Launch''), raw_tone = None,
      raw_sentiment = Some (py ''Neutral''), raw_length = None, raw_creativity = None,
      raw_variants = None\<rparr> = HTTP_422 [Missing ''tone''] \<and>
   (\<exists>resp. post_api_generate (\<lambda>c d. Inr (py ''a1''))
     \<lparr>raw_prompt = Some (py ''''), raw_tone = Some (py ''''), raw_sentiment = Some (py ''''),
      raw_length = None, raw_creativity = None, raw_variants = None\<rparr> = HTTP_200 resp)"
  using required_strings [of
      "\<lparr>raw_prompt = Some (py ''Launch''), raw_tone = None,
      raw_sentiment = Some (py ''Neutral''), raw_length = None, raw_creativity = None,
      raw_variants = None\<rparr>" "\<lambda>c d. Inr (py ''a1'')"]
    required_strings [of
      "\<lparr>raw_prompt = Some (py ''''), raw_tone = Some (py ''''), raw_sentiment = Some (py ''''),
      raw_length = None, raw_creativity = None, raw_variants = None\<rparr>"
      "\<lambda>c d. Inr (py ''a1'')" "py ''''" "py ''''" "py ''''"]
  by (simp add: creativity_out_of_range_def variants_out_of_range_def validation_errors_def
      required_def check_creativity_def check_variants_def)

subsection \<open>Determinism of the composer\<close>

text \<open>
  Claim C5. The outputs depend on the six request fields only: two requests that agree on
  \<open>prompt\<close>, \<open>tone\<close>, \<open>sentiment\<close>, \<open>length\<close>, \<open>creativity\<close> and \<open>variants\<close> (whatever else
  they carry) get the same output sequence. Within one sequence every element is the same
  string, the one the loop body yields at index 0: the loop index does not vary the text.
\<close>

theorem compose_deterministic:
  fixes p :: "'a generate_request_scheme" and q :: "'b generate_request_scheme"
  assumes "prompt p = prompt q" "tone p = tone q" "sentiment p = sentiment q"
    and "length_name p = length_name q" "creativity p = creativity q"
    and "variants p = variants q"
  shows "compose p = compose q \<and>
         compose p = replicate (nat (variants p)) (variant p 0) \<and>
         (\<forall>x \<in> set (compose p). \<forall>y \<in> set (compose p). x = y)"
proof -
  have "variant p 0 = variant q 0"
    using assms(1-5) by (rule variant_cong)
  with assms(6) have "compose p = compose q"
    by (simp add: compose_replicate)
  moreover have r: "compose p = replicate (nat (variants p)) (variant p 0)"
    by (rule compose_replicate)
  moreover have "\<forall>x \<in> set (compose p). \<forall>y \<in> set (compose p). x = y"
    by (subst (1 2) r) auto
  ultimately show ?thesis by blast
qed

theorem compose_deterministic_witness:
  "compose launch_request = compose (generate_request.extend launch_request True) \<and>
   compose launch_request = [variant launch_request 0, variant launch_request 0]"
proof -
  have t: "compose launch_request = compose (generate_request.extend launch_request True) \<and>
      compose launch_request =
        replicate (nat (variants launch_request)) (variant launch_request 0) \<and>
      (\<forall>x \<in> set (compose launch_request). \<forall>y \<in> set (compose launch_request). x = y)"
    by (rule compose_deterministic) (simp_all add: generate_request.defs)
  have "replicate (nat (variants launch_request)) (variant launch_request 0) =
      [variant launch_request 0, variant launch_request 0]"
    by (simp add: launch_request_def numeral_2_eq_2)
  with t show ?thesis by metis
qed

subsection \<open>Blank prompts\<close>

text \<open>
  Claim C9. For a valid request whose prompt is empty or made of whitespace only, \<open>base\<close>
  is the placeholder \<^verbatim>\<open>"Your product or idea"\<close>; the output sequence is not empty and none
  of its strings is empty.
\<close>

theorem blank_prompt_placeholder:
  assumes "valid_request p" and "\<forall>c \<in> set (prompt p). is_space c"
  shows "base (prompt p) = py ''Your product or idea'' \<and> compose p \<noteq> [] \<and>
         (\<forall>out \<in> set (compose p). out \<noteq> [])"
proof (intro conjI ballI)
  from assms(2) have "strip (prompt p) = []" by (rule strip_all_space)
  then show "base (prompt p) = py ''Your product or idea''"
    by (simp add: base_def placeholder_def)
next
  from assms(1) have "0 < length (compose p)"
    by (simp add: length_compose valid_request_def)
  then show "compose p \<noteq> []" by simp
next
  fix out assume "out \<in> set (compose p)"
  then have o: "out = take (nat (max_len (length_name p) * 2)) (padded p)"
    by (rule set_compose)
  have "0 < nat (max_len (length_name p) * 2)"
    using max_len_pos [of "length_name p"] by simp
  with padded_nonempty [of p] show "out \<noteq> []"
    unfolding o by (cases "padded p") auto
qed

theorem blank_prompt_placeholder_witness:
  "valid_request \<lparr>prompt = [32, 9, 160], tone = py ''Formal'', sentiment = py ''Neutral'',
      length_name = py ''Short'', creativity = float_0_35, variants = 1\<rparr> \<and>
   is_space 32 \<and> is_space 9 \<and> is_space 160 \<and>
   base [32, 9, 160] = py ''Your product or idea'' \<and>
   compose \<lparr>prompt = [32, 9, 160], tone = py ''Formal'', sentiment = py ''Neutral'',
      length_name = py ''Short'', creativity = float_0_35, variants = 1\<rparr> \<noteq> [] \<and>
   [] \<notin> set (compose \<lparr>prompt = [32, 9, 160], tone = py ''Formal'', sentiment = py ''Neutral'',
      length_name = py ''Short'', creativity = float_0_35, variants = 1\<rparr>)"
proof -
  have v: "valid_request \<lparr>prompt = [32, 9, 160], tone = py ''Formal'', sentiment = py ''Neutral'',
      length_name = py ''Short'', creativity = float_0_35, variants = 1\<rparr>"
    by (simp add: valid_request_def float_0_35_def)
  have s: "is_space 32 \<and> is_space 9 \<and> is_space 160"
    by (simp add: is_space_def)
  then have b: "\<forall>c \<in> set (prompt \<lparr>prompt = [32, 9, 160], tone = py ''Formal'',
      sentiment = py ''Neutral'', length_name = py ''Short'', creativity = float_0_35,
      variants = 1\<rparr>). is_space c"
    by simp
  from blank_prompt_placeholder [OF v b] v s show ?thesis by auto
qed

subsection \<open>Padding\<close>

text \<open>
  Claim C8. When the word count of the assembled text is below \<open>min_len\<close>, the composer
  appends a space and the first \<open>min (min_len - word count) 5\<close> fillers of the fixed list,
  in order and separated by spaces; when the word count is at least \<open>min_len\<close>, the text is
  left as it is. This is the text before the final slice \<^verbatim>\<open>text[: max_len * 2]\<close>.
\<close>

theorem padding_rule:
  "(word_count (assembled p) < min_len (length_name p) \<longrightarrow>
      padded p =
        assembled p @ py '' '' @
        join (py '' '')
          (take (nat (min (min_len (length_name p) - word_count (assembled p)) 5))
             [py ''Learn more.'', py ''Discover why.'', py ''Built for teams.'',
              py ''Effortless.'', py ''Reliable.''])) \<and>
   (min_len (length_name p) \<le> word_count (assembled p) \<longrightarrow> padded p = assembled p)"
  using take_fillers [of "min_len (length_name p) - word_count (assembled p)"]
  by (simp add: padded_def pad_def fillers_def)

theorem padding_rule_witness:
  "word_count (assembled launch_request) = 22 \<and> min_len (length_name launch_request) = 40 \<and>
   padded launch_request =
     assembled launch_request @
     py '' Learn more. Discover why. Built for teams. Effortless. Reliable.'' \<and>
   word_count (assembled urgent_request) = 26 \<and> min_len (length_name urgent_request) = 18 \<and>
   padded urgent_request = assembled urgent_request"
proof -
  have a: "word_count (assembled launch_request) = 22"
    by (simp add: launch_request_def eval_defs)
  have b: "min_len (length_name launch_request) = 40"
    by (simp add: launch_request_def eval_defs)
  have c: "word_count (assembled urgent_request) = 26"
    by (simp add: urgent_request_def eval_defs)
  have d: "min_len (length_name urgent_request) = 18"
    by (simp add: urgent_request_def eval_defs)
  have "padded launch_request =
     assembled launch_request @ py '' '' @
     join (py '' '') (take (nat (min (40 - 22) 5))
       [py ''Learn more.'', py ''Discover why.'', py ''Built for teams.'',
        py ''Effortless.'', py ''Reliable.''])"
    using padding_rule [of launch_request] a b by simp
  then have e: "padded launch_request =
     assembled launch_request @
     py '' Learn more. Discover why. Built for teams. Effortless. Reliable.''"
    by (simp add: py_def)
  have f: "padded urgent_request = assembled urgent_request"
    using padding_rule [of urgent_request] c d by simp
  from a b c d e f show ?thesis by simp
qed

subsection \<open>Professional, urgent, short\<close>

text \<open>
  Claim C6. For tone \<^verbatim>\<open>Professional\<close>, sentiment \<^verbatim>\<open>Urgent\<close> and length \<^verbatim>\<open>Short\<close> the loop body
  chooses the punctuation \<^verbatim>\<open>"!"\<close> and appends the call to action: the text it builds needs
  no padding and ends with \<^verbatim>\<open>"! Take the next step today"\<close>. The outputs do not show it. The
  final slice \<^verbatim>\<open>text[: max_len * 2]\<close> keeps 52 characters, fewer than the core sentence
  alone, so every output is the first 52 characters of \<open>core\<close>: neither the \<^verbatim>\<open>"!"\<close> nor the
  call to action reaches an output. For the prompt \<^verbatim>\<open>"Launch"\<close> the only output is cut after
  \<^verbatim>\<open>"move "\<close>.
\<close>

theorem short_urgent_outputs_cut:
  assumes "tone p = py ''Professional''" and "sentiment p = py ''Urgent''"
    and "length_name p = py ''Short''"
  shows "exclaim p = py ''!'' \<and> cta_suffix p = py '' Take the next step today'' \<and>
         padded p = core p @ py '' '' @ guide p @ py ''!'' @ py '' Take the next step today'' \<and>
         endswith (padded p) (py ''! Take the next step today'') \<and>
         (\<forall>out \<in> set (compose p). out = take 52 (core p) \<and> length out = 52)"
proof -
  have e: "exclaim p = py ''!''" and c: "cta_suffix p = py '' Take the next step today''"
    using assms by (simp_all add: exclaim_def cta_suffix_def)
  have a: "assembled p =
      base (prompt p) @
      ([32, em_dash] @ py '' crafted with ContentForge to help you move faster.'' @
       py '' '' @ py ''Professional'' @ [32, bullet, 32] @ py ''Urgent'' @ [32, bullet, 32] @
       py ''Short'' @ py ''. '' @ py ''Polished and concise.'' @ py '' '' @
       py ''Use action-forward phrasing.'' @ py ''!'' @ py '' Take the next step today'')"
    using assms
    by (simp add: assembled_def core_def guide_def e c tone_voice_def tone_table_def
        sentiment_hint_def sentiment_table_def py_def)
  have "25 \<le> word_count (assembled p)"
    unfolding a using word_count_append_ge [of _ "base (prompt p)"] urgent_tail_words
    by metis
  moreover have "min_len (length_name p) = 18"
    using assms by (simp add: min_len_def length_bounds_def length_map_def)
  ultimately have "padded p = assembled p"
    by (simp add: padded_def pad_def)
  then have p: "padded p =
      core p @ py '' '' @ guide p @ py ''!'' @ py '' Take the next step today''"
    by (simp add: assembled_def e c)
  have en: "endswith (padded p) (py ''! Take the next step today'')"
    unfolding p endswith_def suffix_def
    by (rule exI [of _ "core p @ py '' '' @ guide p"]) (simp add: py_def)
  have cut: "\<forall>out \<in> set (compose p). out = take 52 (core p) \<and> length out = 52"
  proof
    fix out assume "out \<in> set (compose p)"
    then have "out = variant p 0"
      by (auto dest!: set_compose simp: variant_def)
    then have "out = take 52 (core p)"
      using assms(3) by (simp add: short_variant_cut)
    then show "out = take 52 (core p) \<and> length out = 52"
      using length_core [of p] by simp
  qed
  show ?thesis
    by (intro conjI) (fact e c p en cut)+
qed

theorem short_urgent_outputs_cut_witness:
  "valid_request urgent_request \<and>
   endswith (padded urgent_request) (py ''! Take the next step today'') \<and>
   compose urgent_request =
     [py ''Launch'' @ [32, em_dash] @ py '' crafted with ContentForge to help you move ''] \<and>
   \<not> endswith (py ''Launch'' @ [32, em_dash] @ py '' crafted with ContentForge to help you move '')
       (py ''!'') \<and>
   \<not> contains (py ''Launch'' @ [32, em_dash] @ py '' crafted with ContentForge to help you move '')
       (py ''Take the next step today'')"
proof -
  have t: "tone urgent_request = py ''Professional''" "sentiment urgent_request = py ''Urgent''"
    "length_name urgent_request = py ''Short''"
    by (simp_all add: urgent_request_def)
  note r = short_urgent_outputs_cut [OF t]
  have v: "valid_request urgent_request"
    by (simp add: urgent_request_def valid_request_def float_0_35_def)
  have s: "compose urgent_request = [variant urgent_request 0]"
    by (simp add: compose_single urgent_request_def)
  with r have "variant urgent_request 0 = take 52 (core urgent_request)"
    by simp
  also have "take 52 (core urgent_request) =
      py ''Launch'' @ [32, em_dash] @ py '' crafted with ContentForge to help you move ''"
    by (simp add: urgent_request_def eval_defs)
  finally have o: "compose urgent_request =
     [py ''Launch'' @ [32, em_dash] @ py '' crafted with ContentForge to help you move '']"
    using s by simp
  have n1: "\<not> endswith
      (py ''Launch'' @ [32, em_dash] @ py '' crafted with ContentForge to help you move '')
      (py ''!'')"
    by (simp add: py_def em_dash_def endswith_def suffix_def)
  have n2: "\<not> contains
      (py ''Launch'' @ [32, em_dash] @ py '' crafted with ContentForge to help you move '')
      (py ''Take the next step today'')"
    by (simp add: py_def em_dash_def)
  from r have en: "endswith (padded urgent_request) (py ''! Take the next step today'')"
    by blast
  show ?thesis
    by (intro conjI) (fact v en o n1 n2)+
qed

subsection \<open>Unknown tone and sentiment\<close>

text \<open>
  Claim C7, as stated, asks that the output for an unknown tone and sentiment show the two
  default phrases and end with \<^verbatim>\<open>"."\<close>, or with \<^verbatim>\<open>"!"\<close> when creativity exceeds 0.6. With length
  \<^verbatim>\<open>Short\<close> the output for the prompt \<^verbatim>\<open>"Launch"\<close> holds neither phrase; with length \<^verbatim>\<open>Long\<close>
  and creativity 1 the output ends with the last filler, \<^verbatim>\<open>"Reliable."\<close>, not with \<^verbatim>\<open>"!"\<close>.
\<close>

theorem unknown_vocabulary_counterexample:
  "valid_request sarcastic_short_request \<and>
   tone sarcastic_short_request = py ''Sarcastic'' \<and>
   sentiment sarcastic_short_request = py ''Bored'' \<and>
   compose sarcastic_short_request =
     [py ''Launch'' @ [32, em_dash] @ py '' crafted with ContentForge to help you move ''] \<and>
   \<not> contains (py ''Launch'' @ [32, em_dash] @ py '' crafted with ContentForge to help you move '')
       (py ''Confident and clear.'') \<and>
   \<not> contains (py ''Launch'' @ [32, em_dash] @ py '' crafted with ContentForge to help you move '')
       (py ''Stay helpful.'') \<and>
   valid_request sarcastic_long_request \<and>
   tone sarcastic_long_request = py ''Sarcastic'' \<and>
   sentiment sarcastic_long_request = py ''Bored'' \<and>
   float_0_6 < creativity sarcastic_long_request \<and>
   compose sarcastic_long_request =
     [py ''Launch'' @ [32, em_dash] @
      py '' crafted with ContentForge to help you move faster. Sarcastic'' @ [32, bullet, 32] @
      py ''Bored'' @ [32, bullet, 32] @
      py ''Long. Confident and clear. Stay helpful.! Learn more. Discover why. Built for teams. Effortless. Reliable.''] \<and>
   \<not> endswith
      (py ''Launch'' @ [32, em_dash] @
      py '' crafted with ContentForge to help you move faster. Sarcastic'' @ [32, bullet, 32] @
      py ''Bored'' @ [32, bullet, 32] @
      py ''Long. Confident and clear. Stay helpful.! Learn more. Discover why. Built for teams. Effortless. Reliable.'')
      (py ''!'')"
proof -
  have "variant sarcastic_short_request 0 =
      py ''Launch'' @ [32, em_dash] @ py '' crafted with ContentForge to help you move ''"
    by (simp add: sarcastic_short_request_def eval_defs)
  then have a: "compose sarcastic_short_request =
     [py ''Launch'' @ [32, em_dash] @ py '' crafted with ContentForge to help you move '']"
    by (simp add: compose_single sarcastic_short_request_def)
  have "variant sarcastic_long_request 0 =
      py ''Launch'' @ [32, em_dash] @
      py '' crafted with ContentForge to help you move faster. Sarcastic'' @ [32, bullet, 32] @
      py ''Bored'' @ [32, bullet, 32] @
      py ''Long. Confident and clear. Stay helpful.! Learn more. Discover why. Built for teams. Effortless. Reliable.''"
    by (simp add: sarcastic_long_request_def eval_defs)
  then have b: "compose sarcastic_long_request =
     [py ''Launch'' @ [32, em_dash] @
      py '' crafted with ContentForge to help you move faster. Sarcastic'' @ [32, bullet, 32] @
      py ''Bored'' @ [32, bullet, 32] @
      py ''Long. Confident and clear. Stay helpful.! Learn more. Discover why. Built for teams. Effortless. Reliable.'']"
    by (simp add: compose_single sarcastic_long_request_def)
  have c: "valid_request sarcastic_short_request \<and>
      tone sarcastic_short_request = py ''Sarcastic'' \<and>
      sentiment sarcastic_short_request = py ''Bored'' \<and>
      valid_request sarcastic_long_request \<and>
      tone sarcastic_long_request = py ''Sarcastic'' \<and>
      sentiment sarcastic_long_request = py ''Bored'' \<and>
      float_0_6 < creativity sarcastic_long_request"
    by (simp add: sarcastic_short_request_def sarcastic_long_request_def valid_request_def
        float_0_35_def float_0_6_def)
  have d: "\<not> contains
      (py ''Launch'' @ [32, em_dash] @ py '' crafted with ContentForge to help you move '')
      (py ''Confident and clear.'')"
    by (simp add: py_def em_dash_def)
  have e: "\<not> contains
      (py ''Launch'' @ [32, em_dash] @ py '' crafted with ContentForge to help you move '')
      (py ''Stay helpful.'')"
    by (simp add: py_def em_dash_def)
  have f: "\<not> endswith
      (py ''Launch'' @ [32, em_dash] @
      py '' crafted with ContentForge to help you move faster. Sarcastic'' @ [32, bullet, 32] @
      py ''Bored'' @ [32, bullet, 32] @
      py ''Long. Confident and clear. Stay helpful.! Learn more. Discover why. Built for teams. Effortless. Reliable.'')
      (py ''!'')"
    by (simp add: py_def endswith_def suffix_def em_dash_def bullet_def)
  from a b c d e f show ?thesis by blast
qed

text \<open>
  Claim C7, amended. For a validated request whose tone is none of the four presets and
  whose sentiment is none of the three, the composer resolves the tone phrase to
  \<^verbatim>\<open>"Confident and clear."\<close> and the sentiment phrase to \<^verbatim>\<open>"Stay helpful."\<close>, appends no call to
  action, and chooses \<^verbatim>\<open>"!"\<close> when creativity exceeds the float 0.6 and \<^verbatim>\<open>"."\<close> otherwise. The
  text assembled before padding ends with the two phrases and that punctuation; the padded
  text extends it, every output is a prefix of the padded text, and the endpoint answers
  200.
\<close>

theorem unknown_vocabulary_text:
  assumes "GenerateRequest raw = Inr p"
    and "tone p \<notin> {py ''Professional'', py ''Playful'', py ''Formal'', py ''Casual''}"
    and "sentiment p \<notin> {py ''Positive'', py ''Neutral'', py ''Urgent''}"
  shows "tone_voice (tone p) = py ''Confident and clear.'' \<and>
         sentiment_hint (sentiment p) = py ''Stay helpful.'' \<and>
         cta_suffix p = [] \<and>
         exclaim p = (if float_0_6 < creativity p then py ''!'' else py ''.'') \<and>
         assembled p =
           core p @ py '' '' @ tone p @ [32, bullet, 32] @ sentiment p @ [32, bullet, 32] @
           length_name p @ py ''. Confident and clear. Stay helpful.'' @
           (if float_0_6 < creativity p then py ''!'' else py ''.'') \<and>
         prefix (assembled p) (padded p) \<and>
         (\<forall>out \<in> set (compose p). prefix out (padded p)) \<and>
         post_api_generate create_doc raw = HTTP_200 (generate_content create_doc p)"
proof -
  have tv: "tone_voice (tone p) = py ''Confident and clear.''"
    using assms(2) by (rule tone_voice_default)
  have sh: "sentiment_hint (sentiment p) = py ''Stay helpful.''"
    using assms(3) by (rule sentiment_hint_default)
  have u: "sentiment p \<noteq> py ''Urgent''"
    using assms(3) by auto
  have c: "cta_suffix p = []" and e: "exclaim p = (if float_0_6 < creativity p then py ''!'' else py ''.'')"
    using u by (simp_all add: cta_suffix_def exclaim_def)
  have a: "assembled p =
           core p @ py '' '' @ tone p @ [32, bullet, 32] @ sentiment p @ [32, bullet, 32] @
           length_name p @ py ''. Confident and clear. Stay helpful.'' @
           (if float_0_6 < creativity p then py ''!'' else py ''.'')"
    by (simp add: assembled_def guide_def tv sh c e py_def)
  have pp: "prefix (assembled p) (padded p)"
    by (simp add: padded_def prefix_pad)
  have r: "post_api_generate create_doc raw = HTTP_200 (generate_content create_doc p)"
    using assms(1) by (simp add: post_api_generate_def)
  have pv: "\<forall>out \<in> set (compose p). prefix out (padded p)"
    by (blast intro: prefix_variant)
  show ?thesis
    by (intro conjI) (fact tv sh c e a pp pv r)+
qed

theorem unknown_vocabulary_text_witness:
  "GenerateRequest
     \<lparr>raw_prompt = Some (py ''Launch''), raw_tone = Some (py ''Sarcastic''),
      raw_sentiment = Some (py ''Bored''), raw_length = Some (py ''Short''),
      raw_creativity = None, raw_variants = None\<rparr> = Inr sarcastic_short_request \<and>
   tone_voice (py ''Sarcastic'') = py ''Confident and clear.'' \<and>
   sentiment_hint (py ''Bored'') = py ''Stay helpful.'' \<and>
   cta_suffix sarcastic_short_request = [] \<and>
   exclaim sarcastic_short_request = py ''.'' \<and>
   assembled sarcastic_short_request =
     core sarcastic_short_request @ py '' Sarcastic'' @ [32, bullet, 32] @ py ''Bored'' @
     [32, bullet, 32] @ py ''Short. Confident and clear. Stay helpful..'' \<and>
   post_api_generate (\<lambda>c d. Inr (py ''a1''))
     \<lparr>raw_prompt = Some (py ''Launch''), raw_tone = Some (py ''Sarcastic''),
      raw_sentiment = Some (py ''Bored''), raw_length = Some (py ''Short''),
      raw_creativity = None, raw_variants = None\<rparr> =
     HTTP_200 (generate_content (\<lambda>c d. Inr (py ''a1'')) sarcastic_short_request)"
proof -
  have v: "GenerateRequest
     \<lparr>raw_prompt = Some (py ''Launch''), raw_tone = Some (py ''Sarcastic''),
      raw_sentiment = Some (py ''Bored''), raw_length = Some (py ''Short''),
      raw_creativity = None, raw_variants = None\<rparr> = Inr sarcastic_short_request"
    by (simp add: GenerateRequest_def validation_errors_def required_def check_creativity_def
        check_variants_def with_default_def sarcastic_short_request_def)
  have t: "tone sarcastic_short_request \<notin>
      {py ''Professional'', py ''Playful'', py ''Formal'', py ''Casual''}"
    by (simp add: sarcastic_short_request_def py_def)
  have s: "sentiment sarcastic_short_request \<notin> {py ''Positive'', py ''Neutral'', py ''Urgent''}"
    by (simp add: sarcastic_short_request_def py_def)
  have f: "\<not> float_0_6 < creativity sarcastic_short_request"
    by (simp add: sarcastic_short_request_def float_0_6_def float_0_35_def)
  have n: "tone sarcastic_short_request = py ''Sarcastic''"
    "sentiment sarcastic_short_request = py ''Bored''"
    "length_name sarcastic_short_request = py ''Short''"
    by (simp_all add: sarcastic_short_request_def)
  from unknown_vocabulary_text [OF v t s, of "\<lambda>c d. Inr (py ''a1'')"] v f
  show ?thesis
    unfolding n by (simp add: py_def)
qed

end
